theory Spec2Isabelle
  imports Complex_Main
begin

section \<open>Data model (types.ts, constants.ts)\<close>

text \<open>The enum \<^verbatim>\<open>FutureType\<close> of types.ts.\<close>

datatype FutureType = ROOT | PROBABLE | PLAUSIBLE | POSSIBLE | PREPOSTEROUS

text \<open>
  The interface \<^verbatim>\<open>MultiverseNode\<close>. The fields \<^verbatim>\<open>id\<close> and \<^verbatim>\<open>type\<close> are
  named \<open>node_id\<close> and \<open>ftype\<close> here. \<^verbatim>\<open>parentId: string | null\<close> is an option
  (\<open>None\<close> is \<^verbatim>\<open>null\<close>), and the optional field \<^verbatim>\<open>linkedIds?: string[]\<close> is an
  option (\<open>None\<close> is \<^verbatim>\<open>undefined\<close>). Positions are only stored and copied by the
  functions modelled below, never computed with.
\<close>

record MultiverseNode =
  node_id :: string
  parentId :: "string option"
  ftype :: FutureType
  position :: "real \<times> real \<times> real"
  title :: string
  description :: string
  principles :: "string list"
  color :: string
  linkedIds :: "string list option"

text \<open>
  \<^verbatim>\<open>nodeColors: { [key in FutureType]: string }\<close> is an object with exactly the five
  keys of the enum; \<open>nodeColor\<close> is the property access \<^verbatim>\<open>nodeColors[t]\<close>.
\<close>

record NodeColors =
  cROOT :: string
  cPROBABLE :: string
  cPLAUSIBLE :: string
  cPOSSIBLE :: string
  cPREPOSTEROUS :: string

fun nodeColor :: "NodeColors \<Rightarrow> FutureType \<Rightarrow> string" where
  "nodeColor c ROOT = cROOT c"
| "nodeColor c PROBABLE = cPROBABLE c"
| "nodeColor c PLAUSIBLE = cPLAUSIBLE c"
| "nodeColor c POSSIBLE = cPOSSIBLE c"
| "nodeColor c PREPOSTEROUS = cPREPOSTEROUS c"

record MultiverseTheme =
  backgroundColor :: string
  nodeColors :: NodeColors
  uiAccentColor :: string

definition COLORS :: NodeColors where
  "COLORS = \<lparr>cROOT = ''#ffffff'', cPROBABLE = ''#4ade80'', cPLAUSIBLE = ''#60a5fa'',
     cPOSSIBLE = ''#a78bfa'', cPREPOSTEROUS = ''#f472b6''\<rparr>"

definition INITIAL_NODES :: "MultiverseNode list" where
  "INITIAL_NODES =
   [\<lparr>node_id = ''root'', parentId = None, ftype = ROOT, position = (0, 0, 0),
      title = ''Current Self'',
      description = ''UX Designer at a mid-sized tech firm. Feeling slightly burnt out by dark patterns. Values empathy but constrained by KPIs.'',
      principles = [''User Advocacy'', ''Simplicity''],
      color = nodeColor COLORS ROOT, linkedIds = Some []\<rparr>,
    \<lparr>node_id = ''prob-1'', parentId = Some ''root'', ftype = PROBABLE, position = (0, 0, 10),
      title = ''Senior Product Owner'',
      description = ''You climbed the ladder. You now manage the metrics you used to hate. Efficiency is king.'',
      principles = [''Efficiency'', ''Growth'', ''Stability''],
      color = nodeColor COLORS PROBABLE, linkedIds = Some []\<rparr>,
    \<lparr>node_id = ''plaus-1'', parentId = Some ''root'', ftype = PLAUSIBLE, position = (5, 2, 12),
      title = ''Freelance Ethical Consultant'',
      description = ''You left the firm to advise on \"Ethical AI\". It pays less, but you sleep better. Clients are rare.'',
      principles = [''Ethics'', ''Autonomy'', ''Transparency''],
      color = nodeColor COLORS PLAUSIBLE, linkedIds = Some []\<rparr>,
    \<lparr>node_id = ''poss-1'', parentId = Some ''root'', ftype = POSSIBLE, position = (- 8, - 4, 15),
      title = ''Bio-Digital Weaver'',
      description = ''Design has merged with biology. You grow interfaces using mycelium networks. The screen is obsolete.'',
      principles = [''Biomimicry'', ''Regeneration'', ''Symbiosis''],
      color = nodeColor COLORS POSSIBLE, linkedIds = Some []\<rparr>,
    \<lparr>node_id = ''prep-1'', parentId = Some ''root'', ftype = PREPOSTEROUS, position = (15, 10, 18),
      title = ''Post-Human Architect'',
      description = ''You design experiences for collective consciousnesses uploading to the cloud. Individuality is a legacy concept.'',
      principles = [''Transhumanism'', ''Collectivism'', ''Immortality''],
      color = nodeColor COLORS PREPOSTEROUS, linkedIds = Some []\<rparr>,
    \<lparr>node_id = ''prep-2'', parentId = Some ''root'', ftype = PREPOSTEROUS, position = (- 12, 8, 14),
      title = ''Neo-Luddite Scribe'',
      description = ''Technology collapsed. You are the village record keeper, carving history into stone to preserve it from bit-rot.'',
      principles = [''Preservation'', ''Tangibility'', ''Community''],
      color = nodeColor COLORS PREPOSTEROUS, linkedIds = Some []\<rparr>]"

definition DEFAULT_THEME :: MultiverseTheme where
  "DEFAULT_THEME = \<lparr>backgroundColor = ''#050505'', nodeColors = COLORS,
     uiAccentColor = ''#4ade80''\<rparr>"

section \<open>The state of the component \<^verbatim>\<open>App\<close>\<close>

text \<open>The interface \<^verbatim>\<open>AppState\<close>: one snapshot of the history.\<close>

record AppState =
  nodes :: "MultiverseNode list"
  theme :: MultiverseTheme

text \<open>The four \<^verbatim>\<open>useState\<close> cells of \<^verbatim>\<open>App\<close>.\<close>

record App =
  history :: "AppState list"
  historyIndex :: nat
  selectedIds :: "string list"
  isGeneratingTheme :: bool

definition initialApp :: App where
  "initialApp = \<lparr>history = [\<lparr>nodes = INITIAL_NODES, theme = DEFAULT_THEME\<rparr>],
     historyIndex = 0, selectedIds = [], isGeneratingTheme = False\<rparr>"

text \<open>
  \<^verbatim>\<open>const { nodes, theme } = history[historyIndex]\<close>: every render destructures the
  snapshot under the cursor. An index outside the array reads \<^verbatim>\<open>undefined\<close>, whose
  destructuring throws; that is the value \<open>None\<close>.
\<close>

definition current :: "App \<Rightarrow> AppState option" where
  "current st =
     (if historyIndex st < length (history st) then Some (history st ! historyIndex st)
      else None)"

text \<open>
  The handlers are closures over the values of one render: the \<^verbatim>\<open>nodes\<close> and \<^verbatim>\<open>theme\<close> it
  destructured and the \<^verbatim>\<open>historyIndex\<close> it read, here \<open>capturedIndex\<close>. A handler that
  runs later than the render it was made by still sees these values, while the state
  cells may have moved on.
\<close>

record Render = AppState +
  capturedIndex :: nat

definition render :: "App \<Rightarrow> Render option" where
  "render st =
     (case current st of
        None \<Rightarrow> None
      | Some s \<Rightarrow> Some \<lparr>nodes = nodes s, theme = theme s, capturedIndex = historyIndex st\<rparr>)"

section \<open>History modifiers\<close>

text \<open>
  In the functions below \<open>cur\<close> is the render whose closure is called and \<open>st\<close> holds the
  state cells at the time of the call. \<^verbatim>\<open>pushState(newNodes, newTheme = theme)\<close> has a
  default argument: \<open>None\<close> is the omitted argument, which takes the render's theme. Both
  setters get updater functions, so \<^verbatim>\<open>prev\<close> is the live cell in each; the
  \<^verbatim>\<open>historyIndex\<close> in \<^verbatim>\<open>prev.slice(0, historyIndex + 1)\<close> is the one the render captured.
  \<^verbatim>\<open>slice\<close> is \<open>take\<close>: both stop at the end of a shorter array.
\<close>

definition pushState :: "Render \<Rightarrow> App \<Rightarrow> MultiverseNode list \<Rightarrow> MultiverseTheme option \<Rightarrow> App" where
  "pushState cur st newNodes newTheme =
     st\<lparr>history := take (capturedIndex cur + 1) (history st) @
            [\<lparr>nodes = newNodes,
              theme = (case newTheme of None \<Rightarrow> theme cur | Some t \<Rightarrow> t)\<rparr>],
        historyIndex := historyIndex st + 1\<rparr>"

text \<open>
  \<^verbatim>\<open>undo\<close> and \<^verbatim>\<open>redo\<close> are reached from the buttons and the key listener of the latest
  render, whose \<^verbatim>\<open>historyIndex\<close> and \<^verbatim>\<open>history.length\<close> are those of the cells.
\<close>

definition undo :: "App \<Rightarrow> App" where
  "undo st = (if historyIndex st > 0 then st\<lparr>historyIndex := historyIndex st - 1\<rparr> else st)"

definition redo :: "App \<Rightarrow> App" where
  "redo st =
     (if int (historyIndex st) < int (length (history st)) - 1
      then st\<lparr>historyIndex := historyIndex st + 1\<rparr> else st)"


section \<open>Selection\<close>

text \<open>
  \<^verbatim>\<open>selectedIds.map(id => nodes.find(n => n.id === id)).filter(n => !!n)\<close>: the nodes
  of the render that the selected identifiers name, in selection order.
\<close>

definition selectedNodes :: "Render \<Rightarrow> App \<Rightarrow> MultiverseNode list" where
  "selectedNodes cur st =
     List.map_filter (\<lambda>i. find (\<lambda>n. node_id n = i) (nodes cur)) (selectedIds st)"

definition primarySelectedNode :: "Render \<Rightarrow> App \<Rightarrow> MultiverseNode option" where
  "primarySelectedNode cur st =
     (if length (selectedNodes cur st) > 0 then Some (last (selectedNodes cur st)) else None)"

definition handleNodeSelect :: "App \<Rightarrow> MultiverseNode \<Rightarrow> bool \<Rightarrow> App" where
  "handleNodeSelect st node isMultiSelect =
     st\<lparr>selectedIds :=
          (if isMultiSelect then
             (if node_id node \<in> set (selectedIds st)
              then filter (\<lambda>i. i \<noteq> node_id node) (selectedIds st)
              else selectedIds st @ [node_id node])
           else [node_id node])\<rparr>"

definition handleCloseOverlay :: "App \<Rightarrow> App" where
  "handleCloseOverlay st = st\<lparr>selectedIds := []\<rparr>"

section \<open>Graph mutations\<close>

text \<open>
  \<^verbatim>\<open>handleLinkSelectedNodes\<close>. \<open>linksOf n\<close> is \<^verbatim>\<open>n.linkedIds || []\<close>, which reads an
  absent list as empty; \<^verbatim>\<open>sourceNode.linkedIds?.length\<close> is \<^verbatim>\<open>undefined\<close> for an absent
  list, which differs from every number: that is \<open>map_option length\<close>.
\<close>

definition linksOf :: "MultiverseNode \<Rightarrow> string list" where
  "linksOf n = (case linkedIds n of None \<Rightarrow> [] | Some l \<Rightarrow> l)"

definition handleLinkSelectedNodes :: "Render \<Rightarrow> App \<Rightarrow> App" where
  "handleLinkSelectedNodes cur st =
     (case selectedNodes cur st of
        [source, target] \<Rightarrow>
          (let updatedNodes =
                 map (\<lambda>n. if node_id n = node_id source then
                             (let existingLinks = linksOf n
                              in if node_id target \<notin> set existingLinks
                                 then n\<lparr>linkedIds := Some (existingLinks @ [node_id target])\<rparr>
                                 else n)
                           else n) (nodes cur);
               sourceNode = find (\<lambda>n. node_id n = node_id source) updatedNodes;
               originalNode = find (\<lambda>n. node_id n = node_id source) (nodes cur);
               st' = (case (sourceNode, originalNode) of
                        (Some s, Some orig) \<Rightarrow>
                          if map_option length (linkedIds s) \<noteq> map_option length (linkedIds orig)
                          then pushState cur st updatedNodes None else st
                      | _ \<Rightarrow> st)
           in st'\<lparr>selectedIds := [node_id source]\<rparr>)
      | _ \<Rightarrow> st)"

text \<open>
  The template literal \<^verbatim>\<open>`node-${Date.now()}`\<close>: \<^verbatim>\<open>Date.now()\<close> is an integer number
  of milliseconds, printed in decimal.
\<close>

definition digit_char :: "nat \<Rightarrow> char" where
  "digit_char d = ''0123456789'' ! d"

fun digits :: "nat \<Rightarrow> string" where
  "digits n = (if n < 10 then [digit_char n] else digits (n div 10) @ [digit_char (n mod 10)])"

definition show_number :: "int \<Rightarrow> string" where
  "show_number i = (if i < 0 then ''-'' @ digits (nat (- i)) else digits (nat i))"

text \<open>The \<^verbatim>\<open>data\<close> argument of \<^verbatim>\<open>handleCreateNode\<close>.\<close>

record NewNodeData =
  new_title :: string
  new_description :: string
  new_type :: FutureType
  new_principles :: "string list"

text \<open>
  \<^verbatim>\<open>handleCreateNode\<close>. The two readings of the environment are parameters: \<open>pos\<close> is
  the triple returned by \<^verbatim>\<open>calculateChildPosition(parentNode, data.type)\<close>, computed
  there in double-precision arithmetic from three calls of \<^verbatim>\<open>Math.random()\<close>, and
  \<open>now\<close> is the value of \<^verbatim>\<open>Date.now()\<close>.
\<close>

definition handleCreateNode ::
    "Render \<Rightarrow> App \<Rightarrow> string \<Rightarrow> NewNodeData \<Rightarrow> real \<times> real \<times> real \<Rightarrow> int \<Rightarrow> App" where
  "handleCreateNode cur st parentId' data pos now =
     (case find (\<lambda>n. node_id n = parentId') (nodes cur) of
        None \<Rightarrow> st
      | Some parentNode \<Rightarrow>
          (let newNode = \<lparr>node_id = ''node-'' @ show_number now,
                          parentId = Some parentId',
                          ftype = new_type data,
                          position = pos,
                          title = new_title data,
                          description = new_description data,
                          principles = new_principles data,
                          color = nodeColor (nodeColors (theme cur)) (new_type data),
                          linkedIds = Some []\<rparr>;
               newNodes = nodes cur @ [newNode]
           in (pushState cur st newNodes None)\<lparr>selectedIds := [node_id newNode]\<rparr>))"

text \<open>
  \<^verbatim>\<open>Partial<MultiverseNode>\<close>: every field may be left out (\<open>None\<close>). A supplied
  \<^verbatim>\<open>parentId\<close> is a string or \<^verbatim>\<open>null\<close>. \<open>applyUpdates\<close> is the object spread
  \<^verbatim>\<open>{ ...n, ...updates }\<close>.
\<close>

record NodeUpdates =
  upd_id :: "string option"
  upd_parentId :: "string option option"
  upd_type :: "FutureType option"
  upd_position :: "(real \<times> real \<times> real) option"
  upd_title :: "string option"
  upd_description :: "string option"
  upd_principles :: "string list option"
  upd_color :: "string option"
  upd_linkedIds :: "string list option"

definition applyUpdates :: "MultiverseNode \<Rightarrow> NodeUpdates \<Rightarrow> MultiverseNode" where
  "applyUpdates n updates =
     \<lparr>node_id = (case upd_id updates of None \<Rightarrow> node_id n | Some v \<Rightarrow> v),
      parentId = (case upd_parentId updates of None \<Rightarrow> parentId n | Some v \<Rightarrow> v),
      ftype = (case upd_type updates of None \<Rightarrow> ftype n | Some v \<Rightarrow> v),
      position = (case upd_position updates of None \<Rightarrow> position n | Some v \<Rightarrow> v),
      title = (case upd_title updates of None \<Rightarrow> title n | Some v \<Rightarrow> v),
      description = (case upd_description updates of None \<Rightarrow> description n | Some v \<Rightarrow> v),
      principles = (case upd_principles updates of None \<Rightarrow> principles n | Some v \<Rightarrow> v),
      color = (case upd_color updates of None \<Rightarrow> color n | Some v \<Rightarrow> v),
      linkedIds = (case upd_linkedIds updates of None \<Rightarrow> linkedIds n | Some v \<Rightarrow> Some v)\<rparr>"

definition noUpdates :: NodeUpdates where
  "noUpdates = \<lparr>upd_id = None, upd_parentId = None, upd_type = None, upd_position = None,
     upd_title = None, upd_description = None, upd_principles = None, upd_color = None,
     upd_linkedIds = None\<rparr>"

definition handleUpdateNode :: "Render \<Rightarrow> App \<Rightarrow> string \<Rightarrow> NodeUpdates \<Rightarrow> App" where
  "handleUpdateNode cur st nodeId updates =
     (let updatedNodes = map (\<lambda>n. if node_id n = nodeId then applyUpdates n updates else n)
                             (nodes cur)
      in pushState cur st updatedNodes None)"

section \<open>Enrichment requests (services/geminiService.ts)\<close>

text \<open>
  What a call can throw is a value: a function returns \<open>Inl e\<close> where the source would
  let the exception \<open>e\<close> escape, and \<open>try_catch\<close> is \<^verbatim>\<open>try { ... } catch (error) { ... }\<close>.
  \<open>reply\<close> is the outcome of awaiting \<^verbatim>\<open>ai.models.generateContent\<close>: the promise is
  rejected (transport or service error), or it yields a response whose \<^verbatim>\<open>text\<close> is a
  string or \<^verbatim>\<open>undefined\<close>. \<^verbatim>\<open>JSON.parse\<close> is a parameter of the two functions that
  call it: it throws a \<^verbatim>\<open>SyntaxError\<close> or returns the parsed value. The module
  constant \<^verbatim>\<open>apiKey\<close> (\<^verbatim>\<open>process.env.API_KEY || ''\<close>) is a parameter as well. The
  tests \<^verbatim>\<open>!apiKey\<close>, \<^verbatim>\<open>!text\<close> and \<^verbatim>\<open>response.text || ...\<close> take \<^verbatim>\<open>undefined\<close> and
  the empty string for false and every other string for true.

  \<open>IllTyped\<close> is no exception of the source. It marks the one place where the source goes
  on with a value outside its declared types, which the typed state of the model cannot
  hold (see \<open>handleGenerateTheme_reply\<close>).
\<close>

datatype error = ApiError | SyntaxError | TypeError | IllTyped

datatype reply = Rejected | Response "string option"

definition try_catch :: "error + 'a \<Rightarrow> (error \<Rightarrow> error + 'a) \<Rightarrow> error + 'a" where
  "try_catch body handler = (case body of Inl e \<Rightarrow> handler e | Inr v \<Rightarrow> Inr v)"

definition await_text :: "reply \<Rightarrow> error + string option" where
  "await_text r = (case r of Rejected \<Rightarrow> Inl ApiError | Response text \<Rightarrow> Inr text)"

definition parse_fails :: "string \<Rightarrow> error + 'a" where
  "parse_fails text = Inl SyntaxError"

definition generateReflection :: "string \<Rightarrow> reply \<Rightarrow> MultiverseNode \<Rightarrow> error + string" where
  "generateReflection apiKey r node =
     (if apiKey = [] then
        Inr ''API Key is missing. Please check your environment configuration.''
      else
        try_catch
          (case await_text r of
             Inl e \<Rightarrow> Inl e
           | Inr text \<Rightarrow>
               Inr (case text of
                      None \<Rightarrow> ''The multiverse is silent right now.''
                    | Some t \<Rightarrow> if t = [] then ''The multiverse is silent right now.'' else t))
          (\<lambda>e. Inr ''Static interference prevents a clear signal from the multiverse (API Error).''))"

definition generateCulturalProbes ::
    "string \<Rightarrow> reply \<Rightarrow> (string \<Rightarrow> error + string list) \<Rightarrow> MultiverseNode \<Rightarrow> error + string list" where
  "generateCulturalProbes apiKey r jsonParse node =
     (if apiKey = [] then Inr [''API Key missing. Imagine a probe here.'']
      else
        try_catch
          (case await_text r of
             Inl e \<Rightarrow> Inl e
           | Inr text \<Rightarrow>
               (case text of
                  None \<Rightarrow> Inr [''The signal is weak.'']
                | Some t \<Rightarrow> if t = [] then Inr [''The signal is weak.''] else jsonParse t))
          (\<lambda>e. Inr [''Static interference (API Error).'']))"

text \<open>
  \<^verbatim>\<open>JSON.parse(text) as MultiverseTheme\<close> is an unchecked cast, so what
  \<^verbatim>\<open>generateMultiverseTheme\<close> hands to its caller is one of: \<^verbatim>\<open>null\<close>; another falsy
  value (\<^verbatim>\<open>false\<close>, \<^verbatim>\<open>0\<close>, the empty string); an object of the declared shape; or a
  truthy value whose \<^verbatim>\<open>nodeColors\<close> is \<^verbatim>\<open>undefined\<close> or \<^verbatim>\<open>null\<close> (such as \<^verbatim>\<open>{}\<close>, \<^verbatim>\<open>[]\<close>,
  \<^verbatim>\<open>true\<close>, a number, a string). A truthy value with some other \<^verbatim>\<open>nodeColors\<close> lies
  outside the declared types and has no constructor.
\<close>

datatype parsed = Null | Falsy | Theme MultiverseTheme | NoColors

definition generateMultiverseTheme ::
    "string \<Rightarrow> reply \<Rightarrow> (string \<Rightarrow> error + parsed) \<Rightarrow>
     MultiverseNode list \<Rightarrow> MultiverseNode option \<Rightarrow> error + parsed" where
  "generateMultiverseTheme apiKey r jsonParse nodes' selectedNode =
     (if apiKey = [] then Inr Null
      else
        try_catch
          (case await_text r of
             Inl e \<Rightarrow> Inl e
           | Inr text \<Rightarrow>
               (case text of
                  None \<Rightarrow> Inr Null
                | Some t \<Rightarrow> if t = [] then Inr Null else jsonParse t))
          (\<lambda>e. Inr Null))"

text \<open>
  \<^verbatim>\<open>handleGenerateTheme\<close> is an \<^verbatim>\<open>async\<close> function and has two parts. The part before
  the \<^verbatim>\<open>await\<close> sets the flag and starts the request. The part after it runs when the
  promise settles, from the closure of the render that started the request, on the state
  cells as they are then: other intents may have been handled in between. It tests
  \<^verbatim>\<open>if (newTheme)\<close>, maps \<^verbatim>\<open>newTheme.nodeColors[node.type]\<close> over the render's nodes,
  pushes and resets the flag. Reading a property of \<^verbatim>\<open>undefined\<close> throws a
  \<^verbatim>\<open>TypeError\<close> at the first node, before anything is pushed and before the flag is
  reset; with no node to map over, the source would push the value as the theme, which
  is \<open>IllTyped\<close>. \<open>Inl e\<close> leaves the state cells as they were.
\<close>

definition handleGenerateTheme_request :: "App \<Rightarrow> App" where
  "handleGenerateTheme_request st = st\<lparr>isGeneratingTheme := True\<rparr>"

definition handleGenerateTheme_reply :: "Render \<Rightarrow> App \<Rightarrow> parsed \<Rightarrow> error + App" where
  "handleGenerateTheme_reply cur st newTheme =
     (case newTheme of
        Null \<Rightarrow> Inr (st\<lparr>isGeneratingTheme := False\<rparr>)
      | Falsy \<Rightarrow> Inr (st\<lparr>isGeneratingTheme := False\<rparr>)
      | NoColors \<Rightarrow> if nodes cur = [] then Inl IllTyped else Inl TypeError
      | Theme t \<Rightarrow>
          (let updatedNodes =
                 map (\<lambda>node. node\<lparr>color := nodeColor (nodeColors t) (ftype node)\<rparr>) (nodes cur)
           in Inr ((pushState cur st updatedNodes (Some t))\<lparr>isGeneratingTheme := False\<rparr>)))"

text \<open>
  A request whose promise settles before any other event is handled: both parts run on
  the same render. An exception in the second part rejects the promise that
  \<^verbatim>\<open>handleGenerateTheme\<close> returned, which nobody awaits: the cells stay as the first part
  left them.
\<close>

definition handleGenerateTheme ::
    "Render \<Rightarrow> App \<Rightarrow> string \<Rightarrow> reply \<Rightarrow> (string \<Rightarrow> error + parsed) \<Rightarrow> error + App" where
  "handleGenerateTheme cur st apiKey r jsonParse =
     (let st1 = handleGenerateTheme_request st
      in case generateMultiverseTheme apiKey r jsonParse (nodes cur) (primarySelectedNode cur st) of
           Inl e \<Rightarrow> Inr st1
         | Inr newTheme \<Rightarrow>
             (case handleGenerateTheme_reply cur st1 newTheme of
                Inl e \<Rightarrow> if e = IllTyped then Inl IllTyped else Inr st1
              | Inr st2 \<Rightarrow> Inr st2))"

section \<open>Runs of user intents\<close>

text \<open>
  One event is handled by the closures of the latest render; a render that throws leaves
  no handler to call. \<open>GenerateTheme\<close> is a theme request whose reply arrives before the
  next intent.
\<close>

datatype intent =
    Undo
  | Redo
  | NodeSelect MultiverseNode bool
  | CloseOverlay
  | LinkSelectedNodes
  | CreateNode string NewNodeData "real \<times> real \<times> real" int
  | UpdateNode string NodeUpdates
  | GenerateTheme string reply "string \<Rightarrow> error + parsed"

fun handle :: "Render \<Rightarrow> App \<Rightarrow> intent \<Rightarrow> error + App" where
  "handle cur st Undo = Inr (undo st)"
| "handle cur st Redo = Inr (redo st)"
| "handle cur st (NodeSelect node isMultiSelect) = Inr (handleNodeSelect st node isMultiSelect)"
| "handle cur st CloseOverlay = Inr (handleCloseOverlay st)"
| "handle cur st LinkSelectedNodes = Inr (handleLinkSelectedNodes cur st)"
| "handle cur st (CreateNode parentId' data pos now) =
     Inr (handleCreateNode cur st parentId' data pos now)"
| "handle cur st (UpdateNode nodeId updates) = Inr (handleUpdateNode cur st nodeId updates)"
| "handle cur st (GenerateTheme apiKey r jsonParse) = handleGenerateTheme cur st apiKey r jsonParse"

definition step :: "App \<Rightarrow> intent \<Rightarrow> error + App" where
  "step st i = (case render st of None \<Rightarrow> Inl TypeError | Some cur \<Rightarrow> handle cur st i)"

fun run :: "App \<Rightarrow> intent list \<Rightarrow> error + App" where
  "run st [] = Inr st"
| "run st (i # is) = (case step st i of Inl e \<Rightarrow> Inl e | Inr st' \<Rightarrow> run st' is)"

text \<open>
  Runs in which a theme request stays pending while other intents are handled. The
  system holds the state cells and, for every pending request, the render that started
  it with the value its promise will settle to. \<open>Request\<close> is the first part of
  \<^verbatim>\<open>handleGenerateTheme\<close>, \<open>Settle n\<close> the second part for the \<open>n\<close>th pending request.
\<close>

record System =
  cells :: App
  pending :: "(Render \<times> (error + parsed)) list"

datatype event =
    Intent intent
  | Request string reply "string \<Rightarrow> error + parsed"
  | Settle nat

definition react :: "System \<Rightarrow> event \<Rightarrow> error + System" where
  "react sys ev =
     (case ev of
        Intent i \<Rightarrow>
          (case step (cells sys) i of
             Inl e \<Rightarrow> Inl e
           | Inr st' \<Rightarrow> Inr (sys\<lparr>cells := st'\<rparr>))
      | Request apiKey r jsonParse \<Rightarrow>
          (case render (cells sys) of
             None \<Rightarrow> Inl TypeError
           | Some cur \<Rightarrow>
               Inr \<lparr>cells = handleGenerateTheme_request (cells sys),
                    pending = pending sys @
                      [(cur, generateMultiverseTheme apiKey r jsonParse (nodes cur)
                               (primarySelectedNode cur (cells sys)))]\<rparr>)
      | Settle n \<Rightarrow>
          (if n < length (pending sys) then
             (let (cur, promise) = pending sys ! n;
                  rest = take n (pending sys) @ drop (Suc n) (pending sys)
              in case promise of
                   Inl e \<Rightarrow> Inr (sys\<lparr>pending := rest\<rparr>)
                 | Inr newTheme \<Rightarrow>
                     (case handleGenerateTheme_reply cur (cells sys) newTheme of
                        Inl e \<Rightarrow> if e = IllTyped then Inl IllTyped else Inr (sys\<lparr>pending := rest\<rparr>)
                      | Inr st' \<Rightarrow> Inr \<lparr>cells = st', pending = rest\<rparr>))
           else Inr sys))"

fun runEvents :: "System \<Rightarrow> event list \<Rightarrow> error + System" where
  "runEvents sys [] = Inr sys"
| "runEvents sys (ev # evs) =
     (case react sys ev of Inl e \<Rightarrow> Inl e | Inr sys' \<Rightarrow> runEvents sys' evs)"

definition initialSystem :: System where
  "initialSystem = \<lparr>cells = initialApp, pending = []\<rparr>"

text \<open>The root nodes of a snapshot are the nodes whose \<^verbatim>\<open>parentId\<close> is \<^verbatim>\<open>null\<close>.\<close>

definition roots :: "AppState \<Rightarrow> MultiverseNode list" where
  "roots s = filter (\<lambda>n. parentId n = None) (nodes s)"

text \<open>An intent that supplies no \<^verbatim>\<open>parentId\<close> in the fields of an update.\<close>

fun keepsParent :: "intent \<Rightarrow> bool" where
  "keepsParent (UpdateNode nodeId updates) = (upd_parentId updates = None)"
| "keepsParent _ = True"

section \<open>Auxiliary definitions\<close>

text \<open>
  The callback that \<^verbatim>\<open>handleLinkSelectedNodes\<close> maps over the node list, under a name.
\<close>

definition linkStep :: "MultiverseNode \<Rightarrow> MultiverseNode \<Rightarrow> MultiverseNode \<Rightarrow> MultiverseNode" where
  "linkStep source target n =
     (if node_id n = node_id source then
        (let existingLinks = linksOf n
         in if node_id target \<notin> set existingLinks
            then n\<lparr>linkedIds := Some (existingLinks @ [node_id target])\<rparr> else n)
      else n)"

text \<open>The first render, and the initial node list after linking \<^verbatim>\<open>root\<close> to \<^verbatim>\<open>prob-1\<close>.\<close>

definition firstRender :: Render where
  "firstRender = \<lparr>nodes = INITIAL_NODES, theme = DEFAULT_THEME, capturedIndex = 0\<rparr>"


text \<open>The intents that start a theme generation.\<close>

fun isGenerateTheme :: "intent \<Rightarrow> bool" where
  "isGenerateTheme (GenerateTheme apiKey r jsonParse) = True"
| "isGenerateTheme _ = False"

text \<open>
  \<open>pushedFrom cur st st' s\<close>: the history of \<open>st'\<close> is that of \<open>st\<close> up to the cursor that
  the render \<open>cur\<close> captured, followed by the snapshot \<open>s\<close>, and the cursor has moved one
  step.
\<close>

definition pushedFrom :: "Render \<Rightarrow> App \<Rightarrow> App \<Rightarrow> AppState \<Rightarrow> bool" where
  "pushedFrom cur st st' s =
     (history st' = take (capturedIndex cur + 1) (history st) @ [s] \<and>
      historyIndex st' = historyIndex st + 1)"

text \<open>
  A theme, the text a service would send for it, and a stand-in for \<^verbatim>\<open>JSON.parse\<close> that
  is right on the texts used below: the theme's text, \<^verbatim>\<open>{}\<close>, \<^verbatim>\<open>null\<close>, \<^verbatim>\<open>0\<close> and the
  ill-formed \<^verbatim>\<open>{\<close>. On every other text it reports a syntax error, which not every
  such text deserves.
\<close>

definition nightTheme :: MultiverseTheme where
  "nightTheme = \<lparr>backgroundColor = ''#0a0a12'',
     nodeColors = \<lparr>cROOT = ''#eeeeee'', cPROBABLE = ''#22c55e'', cPLAUSIBLE = ''#3b82f6'',
       cPOSSIBLE = ''#8b5cf6'', cPREPOSTEROUS = ''#ec4899''\<rparr>,
     uiAccentColor = ''#22c55e''\<rparr>"

definition nightThemeText :: string where
  "nightThemeText = ''{\"backgroundColor\":\"#0a0a12\",\"nodeColors\":{\"ROOT\":\"#eeeeee\",\"PROBABLE\":\"#22c55e\",\"PLAUSIBLE\":\"#3b82f6\",\"POSSIBLE\":\"#8b5cf6\",\"PREPOSTEROUS\":\"#ec4899\"},\"uiAccentColor\":\"#22c55e\"}''"

definition parseSample :: "string \<Rightarrow> error + parsed" where
  "parseSample text =
     (if text = nightThemeText then Inr (Theme nightTheme)
      else if text = ''{}'' then Inr NoColors
      else if text = ''null'' then Inr Null
      else if text = ''0'' then Inr Falsy
      else Inl SyntaxError)"

text \<open>A snapshot with exactly one root node, and a history of such snapshots.\<close>

definition oneRoot :: "AppState \<Rightarrow> bool" where
  "oneRoot s = (length (roots s) = 1)"

definition allOneRoot :: "App \<Rightarrow> bool" where
  "allOneRoot st = list_all oneRoot (history st)"



text \<open>
  The pending requests whose renders have exactly one root node, and the events that
  supply no \<^verbatim>\<open>parentId\<close>.
\<close>

definition pendingOneRoot :: "System \<Rightarrow> bool" where
  "pendingOneRoot sys =
     list_all (\<lambda>(cur, promise). oneRoot \<lparr>nodes = nodes cur, theme = theme cur\<rparr>) (pending sys)"

fun keepsParentEvent :: "event \<Rightarrow> bool" where
  "keepsParentEvent (Intent i) = keepsParent i"
| "keepsParentEvent _ = True"

section \<open>The history manager\<close>

lemma render_SomeD:
  assumes "render st = Some cur"
  shows "historyIndex st < length (history st)"
    and "capturedIndex cur = historyIndex st"
    and "nodes cur = nodes (history st ! historyIndex st)"
    and "theme cur = theme (history st ! historyIndex st)"
    and "current st = Some \<lparr>nodes = nodes cur, theme = theme cur\<rparr>"
  using assms by (auto simp: render_def current_def split: if_splits)

lemma render_SomeI:
  "historyIndex st < length (history st) \<Longrightarrow> \<exists>cur. render st = Some cur"
  by (simp add: render_def current_def)

lemma render_initialApp: "render initialApp = Some firstRender"
  by (simp add: render_def current_def initialApp_def firstRender_def)

text \<open>
  Claim C1. \<^verbatim>\<open>pushState\<close>, with or without a theme argument, keeps the history up to the
  cursor that the calling render captured, appends the new snapshot and moves the live
  cursor one step. Called from the render of the state it acts on, this is the claim:
  the history is \<open>H[0..k]\<close> plus the new snapshot and the cursor is its last index
  \<open>k + 1\<close>; so \<open>[S0, S1, S2, S3]\<close> at cursor 3 becomes, after two undos and a push of
  \<open>S4\<close>, \<open>[S0, S1, S4]\<close> at cursor 2, where redo changes nothing. The push of a theme is
  made after an \<^verbatim>\<open>await\<close>, from the render that started the request: when an update is
  handled while the request is pending, the reply leaves the history \<open>[S0, T]\<close> with the
  cursor at 2, past its end, and the next render throws.
\<close>

theorem pushState_slices_at_captured_cursor:
  "history (pushState cur st ns t) =
     take (Suc (capturedIndex cur)) (history st) @
       [\<lparr>nodes = ns, theme = (case t of None \<Rightarrow> theme cur | Some t' \<Rightarrow> t')\<rparr>] \<and>
   historyIndex (pushState cur st ns t) = historyIndex st + 1 \<and>
   (render st = Some cur \<longrightarrow>
      history (pushState cur st ns t) =
        take (Suc (historyIndex st)) (history st) @
          [\<lparr>nodes = ns, theme = (case t of None \<Rightarrow> theme cur | Some t' \<Rightarrow> t')\<rparr>] \<and>
      length (history (pushState cur st ns t)) = historyIndex st + 2 \<and>
      historyIndex (pushState cur st ns t) = length (history (pushState cur st ns t)) - 1 \<and>
      current (pushState cur st ns t) =
        Some \<lparr>nodes = ns, theme = (case t of None \<Rightarrow> theme cur | Some t' \<Rightarrow> t')\<rparr>) \<and>
   (let st0 = \<lparr>history = [S0, S1, S2, S3], historyIndex = 3, selectedIds = sel,
                isGeneratingTheme = g\<rparr>;
        r = \<lparr>nodes = nodes S1, theme = theme S1, capturedIndex = 1\<rparr>;
        st1 = pushState r (undo (undo st0)) (nodes S4) (Some (theme S4));
        st2 = pushState r (undo (undo st0)) (nodes S4) None
    in render (undo (undo st0)) = Some r \<and>
       history st1 = [S0, S1, S4] \<and> historyIndex st1 = 2 \<and> redo st1 = st1 \<and>
       history st2 = [S0, S1, \<lparr>nodes = nodes S4, theme = theme S1\<rparr>] \<and>
       historyIndex st2 = 2 \<and> redo st2 = st2) \<and>
   runEvents initialSystem
     [Request ''key'' (Response (Some nightThemeText)) parseSample,
      Intent (UpdateNode ''root'' (noUpdates\<lparr>upd_principles := Some [''Care'']\<rparr>)),
      Settle 0] =
     Inr \<lparr>cells =
            \<lparr>history =
               [\<lparr>nodes = INITIAL_NODES, theme = DEFAULT_THEME\<rparr>,
                \<lparr>nodes = map (\<lambda>node. node\<lparr>color := nodeColor (nodeColors nightTheme) (ftype node)\<rparr>)
                              INITIAL_NODES,
                  theme = nightTheme\<rparr>],
             historyIndex = 2, selectedIds = [], isGeneratingTheme = False\<rparr>,
          pending = []\<rparr> \<and>
   render
     \<lparr>history =
        [\<lparr>nodes = INITIAL_NODES, theme = DEFAULT_THEME\<rparr>,
         \<lparr>nodes = map (\<lambda>node. node\<lparr>color := nodeColor (nodeColors nightTheme) (ftype node)\<rparr>)
                       INITIAL_NODES,
           theme = nightTheme\<rparr>],
      historyIndex = 2, selectedIds = [], isGeneratingTheme = False\<rparr> = None"
proof -
  have gen: "history (pushState cur st ns t) =
     take (Suc (capturedIndex cur)) (history st) @
       [\<lparr>nodes = ns, theme = (case t of None \<Rightarrow> theme cur | Some t' \<Rightarrow> t')\<rparr>] \<and>
   historyIndex (pushState cur st ns t) = historyIndex st + 1"
    by (simp add: pushState_def)
  have fresh: "history (pushState cur st ns t) =
        take (Suc (historyIndex st)) (history st) @
          [\<lparr>nodes = ns, theme = (case t of None \<Rightarrow> theme cur | Some t' \<Rightarrow> t')\<rparr>] \<and>
      length (history (pushState cur st ns t)) = historyIndex st + 2 \<and>
      historyIndex (pushState cur st ns t) = length (history (pushState cur st ns t)) - 1 \<and>
      current (pushState cur st ns t) =
        Some \<lparr>nodes = ns, theme = (case t of None \<Rightarrow> theme cur | Some t' \<Rightarrow> t')\<rparr>"
    if "render st = Some cur"
    using render_SomeD(1,2)[OF that] by (simp add: pushState_def current_def nth_append)
  have scen: "let st0 = \<lparr>history = [S0, S1, S2, S3], historyIndex = 3, selectedIds = sel,
                isGeneratingTheme = g\<rparr>;
        r = \<lparr>nodes = nodes S1, theme = theme S1, capturedIndex = 1\<rparr>;
        st1 = pushState r (undo (undo st0)) (nodes S4) (Some (theme S4));
        st2 = pushState r (undo (undo st0)) (nodes S4) None
    in render (undo (undo st0)) = Some r \<and>
       history st1 = [S0, S1, S4] \<and> historyIndex st1 = 2 \<and> redo st1 = st1 \<and>
       history st2 = [S0, S1, \<lparr>nodes = nodes S4, theme = theme S1\<rparr>] \<and>
       historyIndex st2 = 2 \<and> redo st2 = st2"
    by (simp add: pushState_def undo_def redo_def render_def current_def Let_def
        numeral_3_eq_3)
  have p: "generateMultiverseTheme ''key'' (Response (Some nightThemeText)) parseSample ns' sel' =
      Inr (Theme nightTheme)" for ns' sel'
    by (simp add: generateMultiverseTheme_def try_catch_def await_text_def parseSample_def
        nightThemeText_def)
  have r1: "render (handleGenerateTheme_request initialApp) = Some firstRender"
    by (simp add: render_def current_def initialApp_def firstRender_def
        handleGenerateTheme_request_def)
  have stale: "runEvents initialSystem
     [Request ''key'' (Response (Some nightThemeText)) parseSample,
      Intent (UpdateNode ''root'' (noUpdates\<lparr>upd_principles := Some [''Care'']\<rparr>)),
      Settle 0] =
     Inr \<lparr>cells =
            \<lparr>history =
               [\<lparr>nodes = INITIAL_NODES, theme = DEFAULT_THEME\<rparr>,
                \<lparr>nodes = map (\<lambda>node. node\<lparr>color := nodeColor (nodeColors nightTheme) (ftype node)\<rparr>)
                              INITIAL_NODES,
                  theme = nightTheme\<rparr>],
             historyIndex = 2, selectedIds = [], isGeneratingTheme = False\<rparr>,
          pending = []\<rparr>"
    by (simp add: react_def initialSystem_def render_initialApp p step_def r1
        handleUpdateNode_def handleGenerateTheme_reply_def pushState_def Let_def)
       (simp add: initialApp_def firstRender_def handleGenerateTheme_request_def)
  have crash: "render
     \<lparr>history =
        [\<lparr>nodes = INITIAL_NODES, theme = DEFAULT_THEME\<rparr>,
         \<lparr>nodes = map (\<lambda>node. node\<lparr>color := nodeColor (nodeColors nightTheme) (ftype node)\<rparr>)
                       INITIAL_NODES,
           theme = nightTheme\<rparr>],
      historyIndex = 2, selectedIds = [], isGeneratingTheme = False\<rparr> = None"
    by (simp add: render_def current_def)
  show ?thesis using gen fresh scen stale crash by blast
qed

theorem pushState_slices_at_captured_cursor_witness:
  "(let st = \<lparr>history = [\<lparr>nodes = [], theme = DEFAULT_THEME\<rparr>,
                          \<lparr>nodes = INITIAL_NODES, theme = DEFAULT_THEME\<rparr>],
               historyIndex = 0, selectedIds = [], isGeneratingTheme = False\<rparr>;
        cur = \<lparr>nodes = [], theme = DEFAULT_THEME, capturedIndex = 0\<rparr>
    in render st = Some cur \<and>
       history (pushState cur st INITIAL_NODES None) =
         [\<lparr>nodes = [], theme = DEFAULT_THEME\<rparr>,
          \<lparr>nodes = INITIAL_NODES, theme = DEFAULT_THEME\<rparr>] \<and>
       length (history (pushState cur st INITIAL_NODES None)) = 2 \<and>
       historyIndex (pushState cur st INITIAL_NODES None) = 1 \<and>
       current (pushState cur st INITIAL_NODES (Some nightTheme)) =
         Some \<lparr>nodes = INITIAL_NODES, theme = nightTheme\<rparr>)"
proof -
  let ?st = "\<lparr>history = [\<lparr>nodes = [], theme = DEFAULT_THEME\<rparr>,
                          \<lparr>nodes = INITIAL_NODES, theme = DEFAULT_THEME\<rparr>],
               historyIndex = 0, selectedIds = [], isGeneratingTheme = False\<rparr>"
  let ?cur = "\<lparr>nodes = [], theme = DEFAULT_THEME, capturedIndex = 0\<rparr>"
  have r: "render ?st = Some ?cur" by (simp add: render_def current_def)
  note a = pushState_slices_at_captured_cursor[of ?cur ?st INITIAL_NODES None]
  note b = pushState_slices_at_captured_cursor[of ?cur ?st INITIAL_NODES "Some nightTheme"]
  have 1: "history (pushState ?cur ?st INITIAL_NODES None) =
         [\<lparr>nodes = [], theme = DEFAULT_THEME\<rparr>,
          \<lparr>nodes = INITIAL_NODES, theme = DEFAULT_THEME\<rparr>]"
    using a r by simp
  have 2: "length (history (pushState ?cur ?st INITIAL_NODES None)) = 2"
    using a r by simp
  have 3: "historyIndex (pushState ?cur ?st INITIAL_NODES None) = 1"
    using a by simp
  have 4: "current (pushState ?cur ?st INITIAL_NODES (Some nightTheme)) =
         Some \<lparr>nodes = INITIAL_NODES, theme = nightTheme\<rparr>"
    using b r by simp
  show ?thesis unfolding Let_def using r 1 2 3 4 by blast
qed






section \<open>Graph mutations and the history\<close>

text \<open>
  Claim C3. An update whose identifier matches no node of the current snapshot is meant
  to push nothing. \<^verbatim>\<open>handleUpdateNode\<close> pushes one snapshot on every call, whatever the
  identifier and the fields: at the initial state, an update addressed to the unknown
  identifier \<^verbatim>\<open>ghost\<close> appends a second snapshot with the same nodes and theme and moves
  the cursor to it.
\<close>

theorem handleUpdateNode_unknown_id_pushes:
  "history (handleUpdateNode cur st nodeId updates) =
     take (Suc (capturedIndex cur)) (history st) @
       [\<lparr>nodes = map (\<lambda>n. if node_id n = nodeId then applyUpdates n updates else n) (nodes cur),
         theme = theme cur\<rparr>] \<and>
   historyIndex (handleUpdateNode cur st nodeId updates) = historyIndex st + 1 \<and>
   (render st = Some cur \<longrightarrow>
      history (handleUpdateNode cur st nodeId updates) =
        take (Suc (historyIndex st)) (history st) @
          [\<lparr>nodes = map (\<lambda>n. if node_id n = nodeId then applyUpdates n updates else n) (nodes cur),
            theme = theme cur\<rparr>]) \<and>
   find (\<lambda>n. node_id n = ''ghost'') INITIAL_NODES = None \<and>
   run initialApp [UpdateNode ''ghost'' (noUpdates\<lparr>upd_principles := Some [''Care'']\<rparr>)] =
     Inr \<lparr>history = [\<lparr>nodes = INITIAL_NODES, theme = DEFAULT_THEME\<rparr>,
                     \<lparr>nodes = INITIAL_NODES, theme = DEFAULT_THEME\<rparr>],
          historyIndex = 1, selectedIds = [], isGeneratingTheme = False\<rparr>"
proof -
  have g: "history (handleUpdateNode cur st nodeId updates) =
     take (Suc (capturedIndex cur)) (history st) @
       [\<lparr>nodes = map (\<lambda>n. if node_id n = nodeId then applyUpdates n updates else n) (nodes cur),
         theme = theme cur\<rparr>] \<and>
   historyIndex (handleUpdateNode cur st nodeId updates) = historyIndex st + 1"
    by (simp add: handleUpdateNode_def pushState_def)
  have h: "history (handleUpdateNode cur st nodeId updates) =
        take (Suc (historyIndex st)) (history st) @
          [\<lparr>nodes = map (\<lambda>n. if node_id n = nodeId then applyUpdates n updates else n) (nodes cur),
            theme = theme cur\<rparr>]"
    if "render st = Some cur"
    using g render_SomeD(2)[OF that] by simp
  have f: "find (\<lambda>n. node_id n = ''ghost'') INITIAL_NODES = None"
    by (simp add: INITIAL_NODES_def)
  have m: "map (\<lambda>n. if node_id n = ''ghost'' then applyUpdates n u else n) INITIAL_NODES =
      INITIAL_NODES" for u
    by (simp add: INITIAL_NODES_def)
  have r: "run initialApp [UpdateNode ''ghost'' (noUpdates\<lparr>upd_principles := Some [''Care'']\<rparr>)] =
     Inr \<lparr>history = [\<lparr>nodes = INITIAL_NODES, theme = DEFAULT_THEME\<rparr>,
                     \<lparr>nodes = INITIAL_NODES, theme = DEFAULT_THEME\<rparr>],
          historyIndex = 1, selectedIds = [], isGeneratingTheme = False\<rparr>"
    by (simp add: step_def render_initialApp handleUpdateNode_def pushState_def)
       (simp add: initialApp_def firstRender_def m)
  show ?thesis using g h f r by blast
qed

theorem handleUpdateNode_unknown_id_pushes_witness:
  "render initialApp = Some firstRender \<and>
   history (handleUpdateNode firstRender initialApp ''ghost'' noUpdates) =
     [\<lparr>nodes = INITIAL_NODES, theme = DEFAULT_THEME\<rparr>,
      \<lparr>nodes = INITIAL_NODES, theme = DEFAULT_THEME\<rparr>]"
proof -
  have m: "map (\<lambda>n. if node_id n = ''ghost'' then applyUpdates n noUpdates else n) INITIAL_NODES =
      INITIAL_NODES"
    by (simp add: INITIAL_NODES_def)
  from handleUpdateNode_unknown_id_pushes[of firstRender initialApp "''ghost''" noUpdates]
    render_initialApp
  have "history (handleUpdateNode firstRender initialApp ''ghost'' noUpdates) =
        take (Suc (historyIndex initialApp)) (history initialApp) @
          [\<lparr>nodes = map (\<lambda>n. if node_id n = ''ghost'' then applyUpdates n noUpdates else n)
                        (nodes firstRender),
            theme = theme firstRender\<rparr>]"
    by blast
  then show ?thesis
    using render_initialApp by (simp add: initialApp_def firstRender_def m)
qed

lemma show_number_ex: "show_number 1730000000000 = ''1730000000000''"
  by (simp add: show_number_def digit_char_def)

text \<open>
  Claim C4. The identifier of a created node is \<^verbatim>\<open>node-\<close> followed by the clock reading
  and is compared with no existing identifier: two creations at the same clock reading
  give two nodes with one identifier.
\<close>

theorem handleCreateNode_same_clock_reading:
  "(case run initialApp
           [CreateNode ''root'' \<lparr>new_title = ''A'', new_description = ''first'',
                                   new_type = PROBABLE, new_principles = [''Unknown'']\<rparr>
              (1, 2, 9) 1730000000000,
            CreateNode ''root'' \<lparr>new_title = ''B'', new_description = ''second'',
                                   new_type = POSSIBLE, new_principles = [''Unknown'']\<rparr>
              (- 4, 3, 15) 1730000000000] of
      Inl e \<Rightarrow> False
    | Inr st \<Rightarrow>
        (case current st of
           None \<Rightarrow> False
         | Some cur \<Rightarrow>
             map node_id (nodes cur) =
               [''root'', ''prob-1'', ''plaus-1'', ''poss-1'', ''prep-1'', ''prep-2'',
                ''node-1730000000000'', ''node-1730000000000''] \<and>
             \<not> distinct (map node_id (nodes cur))))"
  by (simp add: step_def render_def current_def initialApp_def handleCreateNode_def
      pushState_def INITIAL_NODES_def show_number_ex Let_def)

lemma find_map_same_id:
  assumes "\<And>n. node_id (f n) = node_id n"
  shows "find (\<lambda>n. node_id n = i) (map f ns) = map_option f (find (\<lambda>n. node_id n = i) ns)"
  using assms by (induction ns) simp_all



lemma find_node_id: "find (\<lambda>n. node_id n = i) ns = Some x \<Longrightarrow> node_id x = i"
  by (induction ns) (auto split: if_splits)

lemma selectedNodes_found:
  assumes "x \<in> set (selectedNodes cur st)"
  shows "find (\<lambda>n. node_id n = node_id x) (nodes cur) = Some x"
proof -
  from assms obtain i where i: "find (\<lambda>n. node_id n = i) (nodes cur) = Some x"
    by (auto simp: selectedNodes_def List.map_filter_def)
  with find_node_id[OF i] show ?thesis by simp
qed

lemma linkStep_id [simp]: "node_id (linkStep s t n) = node_id n"
  by (simp add: linkStep_def Let_def)

lemma handleLink_pair:
  assumes sel: "selectedNodes cur st = [s, t]"
  shows "handleLinkSelectedNodes cur st =
     (if node_id t \<in> set (linksOf s) then st else pushState cur st (map (linkStep s t) (nodes cur)) None)
       \<lparr>selectedIds := [node_id s]\<rparr>"
proof -
  have fs: "find (\<lambda>n. node_id n = node_id s) (nodes cur) = Some s"
    using selectedNodes_found[of s cur st] sel by simp
  have fu: "find (\<lambda>n. node_id n = node_id s) (map (linkStep s t) (nodes cur)) = Some (linkStep s t s)"
    by (simp add: find_map_same_id fs)
  have m: "(\<lambda>n. if node_id n = node_id s then
                  (let existingLinks = linksOf n
                   in if node_id t \<notin> set existingLinks
                      then n\<lparr>linkedIds := Some (existingLinks @ [node_id t])\<rparr>
                      else n)
                else n) = linkStep s t"
    by (rule ext) (simp add: linkStep_def)
  have d: "map_option length (linkedIds (linkStep s t s)) \<noteq> map_option length (linkedIds s)
            \<longleftrightarrow> node_id t \<notin> set (linksOf s)"
    by (auto simp: linkStep_def Let_def linksOf_def split: option.splits)
  show ?thesis
    unfolding handleLinkSelectedNodes_def sel list.case m
    using d by (simp add: Let_def fs fu)
qed

lemma handleLink_not_two:
  "length (selectedNodes cur st) \<noteq> 2 \<Longrightarrow> handleLinkSelectedNodes cur st = st"
  by (auto simp: handleLinkSelectedNodes_def split: list.splits)




lemma render_selectedIds [simp]: "render (st\<lparr>selectedIds := ids\<rparr>) = render st"
  by (simp add: render_def current_def)







section \<open>Enrichment requests\<close>

text \<open>
  Claim C9, as stated, fails for theme generation: without credentials, on a rejected
  request and on a parse failure it returns the same absent result.
\<close>

theorem theme_failures_indistinguishable:
  "generateMultiverseTheme [] Rejected parse_fails INITIAL_NODES None = Inr Null \<and>
   generateMultiverseTheme ''key'' Rejected parse_fails INITIAL_NODES None = Inr Null \<and>
   generateMultiverseTheme ''key'' (Response (Some ''{'')) parse_fails INITIAL_NODES None = Inr Null"
  by (simp add: generateMultiverseTheme_def try_catch_def await_text_def parse_fails_def)

lemma generateReflection_total: "\<exists>v. generateReflection apiKey r node = Inr v"
  by (auto simp: generateReflection_def try_catch_def await_text_def
      split: reply.splits option.splits sum.splits)

lemma generateCulturalProbes_total: "\<exists>v. generateCulturalProbes apiKey r jsonParse node = Inr v"
  by (auto simp: generateCulturalProbes_def try_catch_def await_text_def
      split: reply.splits option.splits sum.splits)

lemma generateMultiverseTheme_total:
  "\<exists>v. generateMultiverseTheme apiKey r jsonParse ns sel = Inr v"
  by (auto simp: generateMultiverseTheme_def try_catch_def await_text_def
      split: reply.splits option.splits sum.splits)

text \<open>
  Claim C9, amended. With credentials present, reflection and probe generation return on
  a transport failure (and probe generation on a parse failure) a value different from
  the one they return without credentials; theme generation returns the absent result in
  all these cases. None of the three operations lets an exception escape: each returns a
  value for every key, reply and parser.
\<close>

theorem enrichment_failures_are_values:
  "(apiKey \<noteq> [] \<longrightarrow>
      generateReflection [] r node \<noteq> generateReflection apiKey Rejected node \<and>
      generateCulturalProbes [] r jp node \<noteq> generateCulturalProbes apiKey Rejected jp node \<and>
      (text \<noteq> [] \<and> jp text = Inl e \<longrightarrow>
         generateCulturalProbes [] r jp node \<noteq>
           generateCulturalProbes apiKey (Response (Some text)) jp node) \<and>
      generateMultiverseTheme [] r jt ns sel = Inr Null \<and>
      generateMultiverseTheme apiKey Rejected jt ns sel = Inr Null \<and>
      (text \<noteq> [] \<and> jt text = Inl e \<longrightarrow>
         generateMultiverseTheme apiKey (Response (Some text)) jt ns sel = Inr Null)) \<and>
   (\<exists>v. generateReflection apiKey r node = Inr v) \<and>
   (\<exists>v. generateCulturalProbes apiKey r jp node = Inr v) \<and>
   (\<exists>v. generateMultiverseTheme apiKey r jt ns sel = Inr v)"
proof -
  have "apiKey \<noteq> [] \<Longrightarrow> generateReflection [] r node \<noteq> generateReflection apiKey Rejected node"
    by (simp add: generateReflection_def try_catch_def await_text_def)
  moreover have "apiKey \<noteq> [] \<Longrightarrow>
      generateCulturalProbes [] r jp node \<noteq> generateCulturalProbes apiKey Rejected jp node"
    by (simp add: generateCulturalProbes_def try_catch_def await_text_def)
  moreover have "apiKey \<noteq> [] \<Longrightarrow> text \<noteq> [] \<Longrightarrow> jp text = Inl e \<Longrightarrow>
         generateCulturalProbes [] r jp node \<noteq>
           generateCulturalProbes apiKey (Response (Some text)) jp node"
    by (simp add: generateCulturalProbes_def try_catch_def await_text_def)
  moreover have "generateMultiverseTheme [] r jt ns sel = Inr Null"
    by (simp add: generateMultiverseTheme_def)
  moreover have "generateMultiverseTheme apiKey Rejected jt ns sel = Inr Null"
    by (simp add: generateMultiverseTheme_def try_catch_def await_text_def)
  moreover have "jt text = Inl e \<Longrightarrow>
         generateMultiverseTheme apiKey (Response (Some text)) jt ns sel = Inr Null"
    by (simp add: generateMultiverseTheme_def try_catch_def await_text_def)
  ultimately show ?thesis
    using generateReflection_total[of apiKey r node]
      generateCulturalProbes_total[of apiKey r jp node]
      generateMultiverseTheme_total[of apiKey r jt ns sel]
    by blast
qed

theorem enrichment_failures_are_values_witness:
  "''key'' \<noteq> [] \<and> ''{'' \<noteq> [] \<and>
   (parse_fails ''{'' :: error + string list) = Inl SyntaxError \<and>
   (parse_fails ''{'' :: error + parsed) = Inl SyntaxError \<and>
   generateReflection [] Rejected (INITIAL_NODES ! 0) \<noteq>
     generateReflection ''key'' Rejected (INITIAL_NODES ! 0) \<and>
   generateCulturalProbes [] Rejected parse_fails (INITIAL_NODES ! 0) \<noteq>
     generateCulturalProbes ''key'' Rejected parse_fails (INITIAL_NODES ! 0) \<and>
   generateCulturalProbes [] Rejected parse_fails (INITIAL_NODES ! 0) \<noteq>
     generateCulturalProbes ''key'' (Response (Some ''{'')) parse_fails (INITIAL_NODES ! 0) \<and>
   generateMultiverseTheme ''key'' (Response (Some ''{'')) parse_fails INITIAL_NODES None = Inr Null"
proof -
  have k: "''key'' \<noteq> []" and t: "''{'' \<noteq> []" by simp_all
  have p1: "(parse_fails ''{'' :: error + string list) = Inl SyntaxError"
    and p2: "(parse_fails ''{'' :: error + parsed) = Inl SyntaxError"
    by (simp_all add: parse_fails_def)
  note a = enrichment_failures_are_values
    [of "''key''" Rejected "INITIAL_NODES ! 0" parse_fails "''{''" SyntaxError parse_fails INITIAL_NODES None]
  show ?thesis using a k t p1 p2 by blast
qed

text \<open>
  Claim C6. Theme generation yields \<^verbatim>\<open>null\<close> when the credentials are absent, when the
  request is rejected, when the response has no text and when the text does not parse.
  Whenever it yields \<^verbatim>\<open>null\<close>, \<^verbatim>\<open>handleGenerateTheme\<close> pushes nothing: history, cursor,
  current snapshot (its theme and every node colour) and selection are as before, the
  busy flag is off, and the whole state equals the state before a request that was made
  with the flag off. The same holds when the reply meets state cells that other intents
  have changed in the meantime: on \<^verbatim>\<open>null\<close> or another falsy value the second part of
  the handler only resets the flag.
\<close>

theorem failed_theme_generation_changes_nothing:
  "generateMultiverseTheme [] r jsonParse ns sel = Inr Null \<and>
   generateMultiverseTheme apiKey Rejected jsonParse ns sel = Inr Null \<and>
   generateMultiverseTheme apiKey (Response None) jsonParse ns sel = Inr Null \<and>
   (jsonParse text = Inl e \<longrightarrow>
      generateMultiverseTheme apiKey (Response (Some text)) jsonParse ns sel = Inr Null) \<and>
   (generateMultiverseTheme apiKey r jsonParse (nodes cur) (primarySelectedNode cur st) = Inr Null \<longrightarrow>
      handleGenerateTheme cur st apiKey r jsonParse = Inr (st\<lparr>isGeneratingTheme := False\<rparr>) \<and>
      (\<exists>st'. handleGenerateTheme cur st apiKey r jsonParse = Inr st' \<and>
         history st' = history st \<and>
         historyIndex st' = historyIndex st \<and>
         current st' = current st \<and>
         selectedIds st' = selectedIds st \<and>
         (\<not> isGeneratingTheme st \<longrightarrow> st' = st))) \<and>
   handleGenerateTheme_reply cur st Null = Inr (st\<lparr>isGeneratingTheme := False\<rparr>) \<and>
   handleGenerateTheme_reply cur st Falsy = Inr (st\<lparr>isGeneratingTheme := False\<rparr>)"
  by (auto simp: generateMultiverseTheme_def try_catch_def await_text_def
      handleGenerateTheme_def handleGenerateTheme_request_def handleGenerateTheme_reply_def
      current_def)

theorem failed_theme_generation_changes_nothing_witness:
  "generateMultiverseTheme ''key'' (Response (Some ''{'')) parseSample INITIAL_NODES None = Inr Null \<and>
   \<not> isGeneratingTheme initialApp \<and>
   handleGenerateTheme firstRender initialApp ''key'' (Response (Some ''{'')) parseSample =
     Inr initialApp \<and>
   handleGenerateTheme firstRender initialApp [] Rejected parseSample = Inr initialApp"
proof -
  let ?cur = firstRender
  have p: "parseSample ''{'' = Inl SyntaxError"
    by (simp add: parseSample_def nightThemeText_def)
  have g: "\<not> isGeneratingTheme initialApp" by (simp add: initialApp_def)
  have s: "primarySelectedNode ?cur initialApp = None"
    by (simp add: primarySelectedNode_def selectedNodes_def initialApp_def List.map_filter_simps)
  have n: "nodes ?cur = INITIAL_NODES" by (simp add: firstRender_def)
  note a = failed_theme_generation_changes_nothing
     [of "Response (Some ''{'')" parseSample INITIAL_NODES None "''key''" "''{''" SyntaxError ?cur initialApp]
  note b = failed_theme_generation_changes_nothing
     [of Rejected parseSample INITIAL_NODES None "[]" "''{''" SyntaxError ?cur initialApp]
  have 1: "generateMultiverseTheme ''key'' (Response (Some ''{'')) parseSample INITIAL_NODES None = Inr Null"
    using a p by blast
  have 2: "handleGenerateTheme ?cur initialApp ''key'' (Response (Some ''{'')) parseSample = Inr initialApp"
    using a 1 g s n by auto
  have 3: "handleGenerateTheme ?cur initialApp [] Rejected parseSample = Inr initialApp"
    using b g s n by auto
  show ?thesis using 1 g 2 3 by blast
qed

section \<open>Themes of pushed snapshots\<close>

lemma pushState_pushedFrom:
  "pushedFrom cur st ((pushState cur st ns None)\<lparr>selectedIds := ids\<rparr>) \<lparr>nodes = ns, theme = theme cur\<rparr>"
  "pushedFrom cur st (pushState cur st ns None) \<lparr>nodes = ns, theme = theme cur\<rparr>"
  by (simp_all add: pushedFrom_def pushState_def)

lemma handleLink_keeps_theme:
  "history (handleLinkSelectedNodes cur st) = history st \<or>
   (\<exists>ns. pushedFrom cur st (handleLinkSelectedNodes cur st) \<lparr>nodes = ns, theme = theme cur\<rparr>)"
proof (cases "length (selectedNodes cur st) = 2")
  case False
  then show ?thesis by (simp add: handleLink_not_two)
next
  case True
  then obtain s t where sel: "selectedNodes cur st = [s, t]"
    by (cases "selectedNodes cur st"; cases "tl (selectedNodes cur st)") auto
  show ?thesis
  proof (cases "node_id t \<in> set (linksOf s)")
    case True
    then show ?thesis by (simp add: handleLink_pair[OF sel])
  next
    case False
    then have "pushedFrom cur st (handleLinkSelectedNodes cur st)
        \<lparr>nodes = map (linkStep s t) (nodes cur), theme = theme cur\<rparr>"
      by (simp add: handleLink_pair[OF sel] pushState_pushedFrom(1))
    then show ?thesis by blast
  qed
qed

lemma handleCreateNode_keeps_theme:
  "history (handleCreateNode cur st p d pos now) = history st \<or>
   (\<exists>ns. pushedFrom cur st (handleCreateNode cur st p d pos now) \<lparr>nodes = ns, theme = theme cur\<rparr>)"
proof (cases "find (\<lambda>n. node_id n = p) (nodes cur)")
  case None
  then show ?thesis by (simp add: handleCreateNode_def)
next
  case (Some parentNode)
  then obtain ns ids where
    "handleCreateNode cur st p d pos now = (pushState cur st ns None)\<lparr>selectedIds := ids\<rparr>"
    by (simp add: handleCreateNode_def Let_def)
  then have "pushedFrom cur st (handleCreateNode cur st p d pos now) \<lparr>nodes = ns, theme = theme cur\<rparr>"
    by (simp add: pushState_pushedFrom(1))
  then show ?thesis by blast
qed

lemma handleUpdateNode_keeps_theme:
  "\<exists>ns. pushedFrom cur st (handleUpdateNode cur st nodeId updates) \<lparr>nodes = ns, theme = theme cur\<rparr>"
  unfolding handleUpdateNode_def Let_def
  by (intro exI) (rule pushState_pushedFrom(2))

lemma pushedFrom_current:
  "pushedFrom cur st st' s \<Longrightarrow> render st = Some cur \<Longrightarrow> current st' = Some s"
  using render_SomeD(1,2)[of st cur] by (simp add: pushedFrom_def current_def nth_append)

lemma handle_keeps_theme:
  assumes "\<not> isGenerateTheme i"
  shows "\<exists>st'. handle cur st i = Inr st' \<and>
      (history st' = history st \<or>
       (\<exists>ns. pushedFrom cur st st' \<lparr>nodes = ns, theme = theme cur\<rparr>))"
  using assms
proof (cases i)
  case Undo then show ?thesis by (simp add: undo_def)
next
  case Redo then show ?thesis by (simp add: redo_def)
next
  case (NodeSelect n m) then show ?thesis by (simp add: handleNodeSelect_def)
next
  case CloseOverlay then show ?thesis by (simp add: handleCloseOverlay_def)
next
  case LinkSelectedNodes then show ?thesis using handleLink_keeps_theme by simp
next
  case (CreateNode p d pos now)
  then show ?thesis using handleCreateNode_keeps_theme by simp
next
  case (UpdateNode n u)
  then show ?thesis using handleUpdateNode_keeps_theme by simp
qed simp

lemma handleGenerateTheme_reply_Theme:
  "handleGenerateTheme_reply cur st (Theme t) =
     Inr ((pushState cur st
             (map (\<lambda>n. n\<lparr>color := nodeColor (nodeColors t) (ftype n)\<rparr>) (nodes cur)) (Some t))
          \<lparr>isGeneratingTheme := False\<rparr>)"
  by (simp add: handleGenerateTheme_reply_def)

text \<open>
  Claim C10. Every intent other than theme generation leaves the history as it is or
  pushes one snapshot that carries the theme of the render it was issued from; when that
  render is the snapshot under the cursor, the current theme after a push is the current
  theme before it. \<^verbatim>\<open>handleUpdateNode\<close> always pushes such a snapshot. The only push of
  another theme is made by the second part of \<^verbatim>\<open>handleGenerateTheme\<close>: when the request
  has yielded a theme \<open>t\<close>, it pushes the nodes of the render that started the request,
  recoloured, with \<open>t\<close>, after the history up to the cursor which that render captured;
  on a truthy value without colours it throws and pushes nothing.
\<close>

theorem node_mutations_push_current_theme:
  "(\<not> isGenerateTheme i \<longrightarrow>
      (\<exists>st'. handle cur st i = Inr st' \<and>
         (history st' = history st \<or>
          (\<exists>ns. pushedFrom cur st st' \<lparr>nodes = ns, theme = theme cur\<rparr>)))) \<and>
   (\<not> isGenerateTheme i \<and> render st = Some cur \<and> handle cur st i = Inr st1 \<and>
    history st1 \<noteq> history st \<longrightarrow>
      map_option theme (current st1) = map_option theme (current st)) \<and>
   (\<exists>ns. pushedFrom cur st (handleUpdateNode cur st nodeId updates) \<lparr>nodes = ns, theme = theme cur\<rparr>) \<and>
   (\<exists>st2. handleGenerateTheme_reply cur st (Theme t) = Inr st2 \<and>
      pushedFrom cur st st2
        \<lparr>nodes = map (\<lambda>n. n\<lparr>color := nodeColor (nodeColors t) (ftype n)\<rparr>) (nodes cur),
          theme = t\<rparr>) \<and>
   (nodes cur \<noteq> [] \<longrightarrow> handleGenerateTheme_reply cur st NoColors = Inl TypeError)"
proof (intro conjI impI)
  assume "\<not> isGenerateTheme i"
  then show "\<exists>st'. handle cur st i = Inr st' \<and>
         (history st' = history st \<or>
          (\<exists>ns. pushedFrom cur st st' \<lparr>nodes = ns, theme = theme cur\<rparr>))"
    by (rule handle_keeps_theme)
next
  assume a: "\<not> isGenerateTheme i \<and> render st = Some cur \<and> handle cur st i = Inr st1 \<and>
    history st1 \<noteq> history st"
  then obtain ns where ns: "pushedFrom cur st st1 \<lparr>nodes = ns, theme = theme cur\<rparr>"
    using handle_keeps_theme[of i cur st] by auto
  from a have r: "render st = Some cur" by simp
  from pushedFrom_current[OF ns r] render_SomeD(5)[OF r]
  show "map_option theme (current st1) = map_option theme (current st)"
    by simp
next
  show "\<exists>ns. pushedFrom cur st (handleUpdateNode cur st nodeId updates) \<lparr>nodes = ns, theme = theme cur\<rparr>"
    by (rule handleUpdateNode_keeps_theme)
next
  show "\<exists>st2. handleGenerateTheme_reply cur st (Theme t) = Inr st2 \<and>
      pushedFrom cur st st2
        \<lparr>nodes = map (\<lambda>n. n\<lparr>color := nodeColor (nodeColors t) (ftype n)\<rparr>) (nodes cur),
          theme = t\<rparr>"
    by (simp add: handleGenerateTheme_reply_Theme pushedFrom_def pushState_def)
next
  assume "nodes cur \<noteq> []"
  then show "handleGenerateTheme_reply cur st NoColors = Inl TypeError"
    by (simp add: handleGenerateTheme_reply_def)
qed

theorem node_mutations_push_current_theme_witness:
  "\<not> isGenerateTheme (UpdateNode ''root'' (noUpdates\<lparr>upd_title := Some ''Now''\<rparr>)) \<and>
   render initialApp = Some firstRender \<and>
   handle firstRender initialApp (UpdateNode ''root'' (noUpdates\<lparr>upd_title := Some ''Now''\<rparr>)) =
     Inr (handleUpdateNode firstRender initialApp ''root'' (noUpdates\<lparr>upd_title := Some ''Now''\<rparr>)) \<and>
   history (handleUpdateNode firstRender initialApp ''root'' (noUpdates\<lparr>upd_title := Some ''Now''\<rparr>)) \<noteq>
     history initialApp \<and>
   map_option theme
     (current (handleUpdateNode firstRender initialApp ''root'' (noUpdates\<lparr>upd_title := Some ''Now''\<rparr>))) =
     Some DEFAULT_THEME \<and>
   generateMultiverseTheme ''key'' (Response (Some nightThemeText)) parseSample
      (nodes firstRender) (primarySelectedNode firstRender initialApp) = Inr (Theme nightTheme) \<and>
   map_sum id (map_option theme \<circ> current)
     (handleGenerateTheme_reply firstRender (handleGenerateTheme_request initialApp)
        (Theme nightTheme)) =
     Inr (Some nightTheme) \<and>
   nodes firstRender \<noteq> [] \<and>
   generateMultiverseTheme ''key'' (Response (Some ''{}'')) parseSample
      (nodes firstRender) (primarySelectedNode firstRender initialApp) = Inr NoColors \<and>
   handleGenerateTheme_reply firstRender (handleGenerateTheme_request initialApp) NoColors =
     Inl TypeError"
proof -
  let ?cur = firstRender
  let ?u = "noUpdates\<lparr>upd_title := Some ''Now''\<rparr>"
  let ?i = "UpdateNode ''root'' ?u"
  let ?st1 = "handleUpdateNode ?cur initialApp ''root'' ?u"
  let ?rq = "handleGenerateTheme_request initialApp"
  note a = node_mutations_push_current_theme
    [of ?i ?cur initialApp ?st1 "''root''" noUpdates nightTheme]
  note b = node_mutations_push_current_theme
    [of ?i ?cur ?rq ?st1 "''root''" noUpdates nightTheme]
  have 1: "\<not> isGenerateTheme ?i" by simp
  have 2: "render initialApp = Some ?cur" by (rule render_initialApp)
  have 3: "handle ?cur initialApp ?i = Inr ?st1" by simp
  have 4: "history ?st1 \<noteq> history initialApp"
    by (simp add: handleUpdateNode_def pushState_def initialApp_def firstRender_def)
  have c: "current initialApp = Some \<lparr>nodes = INITIAL_NODES, theme = DEFAULT_THEME\<rparr>"
    by (simp add: current_def initialApp_def)
  have 5: "map_option theme (current ?st1) = Some DEFAULT_THEME"
    using a 1 2 3 4 c by simp
  have 6: "generateMultiverseTheme ''key'' (Response (Some nightThemeText)) parseSample
      (nodes ?cur) (primarySelectedNode ?cur initialApp) = Inr (Theme nightTheme)"
    by (simp add: generateMultiverseTheme_def try_catch_def await_text_def parseSample_def
        nightThemeText_def)
  have rq: "render ?rq = Some ?cur"
    by (simp add: render_def current_def handleGenerateTheme_request_def initialApp_def
        firstRender_def)
  from b obtain st2 where st2:
    "handleGenerateTheme_reply ?cur ?rq (Theme nightTheme) = Inr st2"
    "pushedFrom ?cur ?rq st2
       \<lparr>nodes = map (\<lambda>n. n\<lparr>color := nodeColor (nodeColors nightTheme) (ftype n)\<rparr>) (nodes ?cur),
         theme = nightTheme\<rparr>"
    by blast
  from pushedFrom_current[OF st2(2) rq]
  have 7: "map_sum id (map_option theme \<circ> current)
     (handleGenerateTheme_reply ?cur ?rq (Theme nightTheme)) = Inr (Some nightTheme)"
    by (simp add: st2(1))
  have 8: "nodes ?cur \<noteq> []" by (simp add: firstRender_def INITIAL_NODES_def)
  have 9: "generateMultiverseTheme ''key'' (Response (Some ''{}'')) parseSample
      (nodes ?cur) (primarySelectedNode ?cur initialApp) = Inr NoColors"
    by (simp add: generateMultiverseTheme_def try_catch_def await_text_def parseSample_def
        nightThemeText_def)
  have 10: "handleGenerateTheme_reply ?cur ?rq NoColors = Inl TypeError"
    using b 8 by blast
  show ?thesis using 1 2 3 4 5 6 7 8 9 10 by blast
qed

section \<open>The root node\<close>

lemma roots_map_same_parent:
  assumes "\<And>n. parentId (f n) = parentId n"
  shows "length (roots \<lparr>nodes = map f ns, theme = t\<rparr>) = length (roots \<lparr>nodes = ns, theme = t'\<rparr>)"
  using assms by (induction ns) (simp_all add: roots_def)

lemma oneRoot_map:
  assumes "\<And>n. parentId (f n) = parentId n" and "oneRoot \<lparr>nodes = ns, theme = t'\<rparr>"
  shows "oneRoot \<lparr>nodes = map f ns, theme = t\<rparr>"
  using roots_map_same_parent[OF assms(1), of ns t t'] assms(2) by (simp add: oneRoot_def)

lemma oneRoot_append_child:
  assumes "oneRoot \<lparr>nodes = ns, theme = t'\<rparr>" and "parentId n \<noteq> None"
  shows "oneRoot \<lparr>nodes = ns @ [n], theme = t\<rparr>"
  using assms by (simp add: oneRoot_def roots_def)

lemma oneRoot_nonempty: "oneRoot \<lparr>nodes = ns, theme = t\<rparr> \<Longrightarrow> ns \<noteq> []"
  by (auto simp: oneRoot_def roots_def)

lemma allOneRoot_pushState:
  assumes "allOneRoot st" and "oneRoot \<lparr>nodes = ns, theme = (case t of None \<Rightarrow> theme cur | Some t' \<Rightarrow> t')\<rparr>"
  shows "allOneRoot (pushState cur st ns t)"
proof -
  have "list_all oneRoot (take (capturedIndex cur + 1) (history st))"
    using assms(1) unfolding allOneRoot_def list_all_iff by (meson in_set_takeD)
  then show ?thesis using assms(2) by (simp add: allOneRoot_def pushState_def)
qed

lemma allOneRoot_frame [simp]:
  "allOneRoot (st\<lparr>selectedIds := ids\<rparr>) = allOneRoot st"
  "allOneRoot (st\<lparr>isGeneratingTheme := g\<rparr>) = allOneRoot st"
  "allOneRoot (st\<lparr>historyIndex := k\<rparr>) = allOneRoot st"
  by (simp_all add: allOneRoot_def)

lemma linkStep_parent [simp]: "parentId (linkStep s t n) = parentId n"
  by (simp add: linkStep_def Let_def)

lemma applyUpdates_parent:
  "upd_parentId u = None \<Longrightarrow> parentId (if node_id n = i then applyUpdates n u else n) = parentId n"
  by (simp add: applyUpdates_def)

lemma handleGenerateTheme_reply_allOneRoot:
  assumes inv: "allOneRoot st" and cur: "oneRoot \<lparr>nodes = nodes cur, theme = theme cur\<rparr>"
  shows "case handleGenerateTheme_reply cur st v of
           Inl e \<Rightarrow> e = TypeError
         | Inr st' \<Rightarrow> allOneRoot st' \<and> historyIndex st' \<le> historyIndex st + 1"
proof (cases v)
  case (Theme t)
  have "oneRoot \<lparr>nodes = map (\<lambda>n. n\<lparr>color := nodeColor (nodeColors t) (ftype n)\<rparr>) (nodes cur),
           theme = t\<rparr>"
    using cur by (intro oneRoot_map) simp_all
  then show ?thesis using inv Theme
    by (simp add: handleGenerateTheme_reply_Theme allOneRoot_pushState) (simp add: pushState_def)
next
  case NoColors
  then show ?thesis using oneRoot_nonempty[OF cur] by (simp add: handleGenerateTheme_reply_def)
next
  case Null
  then show ?thesis using inv by (simp add: handleGenerateTheme_reply_def)
next
  case Falsy
  then show ?thesis using inv by (simp add: handleGenerateTheme_reply_def)
qed

lemma handle_allOneRoot:
  assumes inv: "allOneRoot st" and cur: "oneRoot \<lparr>nodes = nodes cur, theme = theme cur\<rparr>"
    and k: "keepsParent i"
  shows "\<exists>st'. handle cur st i = Inr st' \<and> allOneRoot st'"
proof (cases i)
  case Undo then show ?thesis using inv by (simp add: undo_def)
next
  case Redo then show ?thesis using inv by (simp add: redo_def)
next
  case (NodeSelect n m) then show ?thesis using inv by (simp add: handleNodeSelect_def)
next
  case CloseOverlay then show ?thesis using inv by (simp add: handleCloseOverlay_def)
next
  case LinkSelectedNodes
  show ?thesis
  proof (cases "length (selectedNodes cur st) = 2")
    case False
    then show ?thesis using inv LinkSelectedNodes by (simp add: handleLink_not_two)
  next
    case True
    then obtain s t where sel: "selectedNodes cur st = [s, t]"
      by (cases "selectedNodes cur st"; cases "tl (selectedNodes cur st)") auto
    have "oneRoot \<lparr>nodes = map (linkStep s t) (nodes cur), theme = theme cur\<rparr>"
      using cur by (intro oneRoot_map) simp_all
    then have "allOneRoot (pushState cur st (map (linkStep s t) (nodes cur)) None)"
      using inv by (intro allOneRoot_pushState) simp_all
    then show ?thesis using inv LinkSelectedNodes by (simp add: handleLink_pair[OF sel])
  qed
next
  case (CreateNode p d pos now)
  show ?thesis
  proof (cases "find (\<lambda>n. node_id n = p) (nodes cur)")
    case None
    then show ?thesis using inv CreateNode by (simp add: handleCreateNode_def)
  next
    case (Some parentNode)
    then show ?thesis using inv cur CreateNode
      by (simp add: handleCreateNode_def Let_def allOneRoot_pushState oneRoot_append_child)
  qed
next
  case (UpdateNode nodeId u)
  with k have u: "upd_parentId u = None" by simp
  have "oneRoot \<lparr>nodes = map (\<lambda>n. if node_id n = nodeId then applyUpdates n u else n) (nodes cur),
           theme = theme cur\<rparr>"
    using cur by (intro oneRoot_map) (simp_all add: applyUpdates_parent[OF u])
  then show ?thesis using inv UpdateNode
    by (simp add: handleUpdateNode_def Let_def allOneRoot_pushState)
next
  case (GenerateTheme apiKey r jp)
  have inv1: "allOneRoot (handleGenerateTheme_request st)"
    using inv by (simp add: handleGenerateTheme_request_def)
  show ?thesis
  proof (cases "generateMultiverseTheme apiKey r jp (nodes cur) (primarySelectedNode cur st)")
    case (Inl e)
    then show ?thesis using inv1 GenerateTheme by (simp add: handleGenerateTheme_def Let_def)
  next
    case (Inr v)
    from handleGenerateTheme_reply_allOneRoot[OF inv1 cur, of v]
    show ?thesis using inv1 GenerateTheme Inr
      by (auto simp: handleGenerateTheme_def Let_def split: sum.splits)
  qed
qed

lemma handle_wf:
  assumes "render st = Some cur" and "handle cur st i = Inr st'"
  shows "historyIndex st' < length (history st')"
proof -
  note c = render_SomeD(1,2)[OF assms(1)]
  show ?thesis
  proof (cases i)
    case Undo then show ?thesis using c assms(2) by (auto simp add: undo_def)
  next
    case Redo then show ?thesis using c assms(2) by (auto simp add: redo_def)
  next
    case (NodeSelect n m) then show ?thesis using c assms(2) by (auto simp add: handleNodeSelect_def)
  next
    case CloseOverlay then show ?thesis using c assms(2) by (auto simp add: handleCloseOverlay_def)
  next
    case LinkSelectedNodes
    show ?thesis
    proof (cases "length (selectedNodes cur st) = 2")
      case False
      then show ?thesis using c assms(2) LinkSelectedNodes by (auto simp add: handleLink_not_two)
    next
      case True
      then obtain s t where sel: "selectedNodes cur st = [s, t]"
        by (cases "selectedNodes cur st"; cases "tl (selectedNodes cur st)") auto
      show ?thesis using c assms(2) LinkSelectedNodes
        by (auto simp add: handleLink_pair[OF sel] pushState_def)
    qed
  next
    case (CreateNode p d pos now)
    then show ?thesis using c assms(2)
      by (auto simp add: handleCreateNode_def Let_def pushState_def split: option.splits)
  next
    case (UpdateNode nodeId u)
    then show ?thesis using c assms(2) by (auto simp add: handleUpdateNode_def Let_def pushState_def)
  next
    case (GenerateTheme apiKey r jp)
    then show ?thesis using c assms(2)
      by (auto simp add: handleGenerateTheme_def handleGenerateTheme_request_def
          handleGenerateTheme_reply_def Let_def pushState_def
          split: sum.splits parsed.splits if_splits)
  qed
qed

lemma current_oneRoot:
  "allOneRoot st \<Longrightarrow> current st = Some cur \<Longrightarrow> oneRoot cur"
  by (auto simp: allOneRoot_def current_def list_all_length split: if_splits)

lemma run_invariant:
  assumes "historyIndex st < length (history st)" and "allOneRoot st"
    and "list_all keepsParent is"
  shows "\<exists>st'. run st is = Inr st' \<and> historyIndex st' < length (history st') \<and> allOneRoot st'"
  using assms
proof (induction "is" arbitrary: st)
  case Nil then show ?case by simp
next
  case (Cons i "is")
  from Cons.prems(1) obtain cur where cur: "render st = Some cur"
    using render_SomeI by blast
  have o: "oneRoot \<lparr>nodes = nodes cur, theme = theme cur\<rparr>"
    using current_oneRoot[OF Cons.prems(2) render_SomeD(5)[OF cur]] .
  from Cons.prems(3) have k: "keepsParent i" by simp
  from handle_allOneRoot[OF Cons.prems(2) o k] obtain st' where
    st': "handle cur st i = Inr st'" "allOneRoot st'" by blast
  have step: "step st i = Inr st'" by (simp add: step_def cur st'(1))
  have 1: "historyIndex st' < length (history st')"
    using cur st'(1) by (rule handle_wf)
  from Cons.IH[OF 1 st'(2)] Cons.prems(3) show ?case by (simp add: step)
qed

lemma initialApp_inv: "historyIndex initialApp < length (history initialApp) \<and> allOneRoot initialApp"
  by (simp add: initialApp_def allOneRoot_def oneRoot_def roots_def INITIAL_NODES_def)

text \<open>
  Claim C7, as stated, fails: \<^verbatim>\<open>handleUpdateNode\<close> accepts any \<^verbatim>\<open>Partial<MultiverseNode>\<close>.
  From the initial state, an update that sets the \<^verbatim>\<open>parentId\<close> of \<^verbatim>\<open>prob-1\<close> to \<^verbatim>\<open>null\<close>
  leaves two root nodes, and one that gives \<^verbatim>\<open>root\<close> a parent leaves none.
\<close>

theorem update_of_parentId_breaks_single_root:
  "map_sum id (map_option (length \<circ> roots) \<circ> current)
     (run initialApp [UpdateNode ''prob-1'' (noUpdates\<lparr>upd_parentId := Some None\<rparr>)]) =
     Inr (Some 2) \<and>
   map_sum id (map_option (length \<circ> roots) \<circ> current)
     (run initialApp [UpdateNode ''root'' (noUpdates\<lparr>upd_parentId := Some (Some ''prob-1'')\<rparr>)]) =
     Inr (Some 0)"
  by (simp add: step_def render_def current_def initialApp_def handleUpdateNode_def
      pushState_def INITIAL_NODES_def roots_def applyUpdates_def noUpdates_def)

text \<open>
  Claim C7, amended. Every run of intents from the initial state in which no update
  supplies a \<^verbatim>\<open>parentId\<close> completes, and every snapshot of the resulting history, the
  current one among them, has exactly one root node.
\<close>

theorem one_root_in_reachable_snapshots:
  assumes "list_all keepsParent is"
  shows "\<exists>st cur. run initialApp is = Inr st \<and> current st = Some cur \<and>
           length (roots cur) = 1 \<and> list_all oneRoot (history st)"
proof -
  from run_invariant[of initialApp "is"] initialApp_inv assms
  obtain st where st: "run initialApp is = Inr st" "historyIndex st < length (history st)"
    "allOneRoot st" by blast
  from st(2) obtain cur where cur: "current st = Some cur" by (simp add: current_def)
  from current_oneRoot[OF st(3) cur] have "length (roots cur) = 1" by (simp add: oneRoot_def)
  with st cur show ?thesis by (auto simp: allOneRoot_def)
qed

theorem one_root_in_reachable_snapshots_witness:
  "list_all keepsParent
     [CreateNode ''root'' \<lparr>new_title = ''A'', new_description = ''B'', new_type = PROBABLE,
        new_principles = [''Unknown'']\<rparr> (1, 2, 9) 1730000000000,
      UpdateNode ''root'' (noUpdates\<lparr>upd_principles := Some [''Care'']\<rparr>),
      Undo, LinkSelectedNodes, Redo] \<and>
   (\<exists>st cur. run initialApp
     [CreateNode ''root'' \<lparr>new_title = ''A'', new_description = ''B'', new_type = PROBABLE,
        new_principles = [''Unknown'']\<rparr> (1, 2, 9) 1730000000000,
      UpdateNode ''root'' (noUpdates\<lparr>upd_principles := Some [''Care'']\<rparr>),
      Undo, LinkSelectedNodes, Redo] = Inr st \<and> current st = Some cur \<and>
      length (roots cur) = 1 \<and> list_all oneRoot (history st))"
proof -
  have k: "list_all keepsParent
     [CreateNode ''root'' \<lparr>new_title = ''A'', new_description = ''B'', new_type = PROBABLE,
        new_principles = [''Unknown'']\<rparr> (1, 2, 9) 1730000000000,
      UpdateNode ''root'' (noUpdates\<lparr>upd_principles := Some [''Care'']\<rparr>),
      Undo, LinkSelectedNodes, Redo]"
    by (simp add: noUpdates_def)
  from one_root_in_reachable_snapshots[OF k] k show ?thesis by blast
qed

text \<open>
  The same holds of the snapshots when theme requests stay pending while other intents
  are handled: a reply pushes the recoloured nodes of the render that started the
  request. (Such a run can end in a render that throws, as under claim C1.)
\<close>

lemma react_keeps_one_root:
  assumes inv: "allOneRoot (cells sys)" and pen: "pendingOneRoot sys"
    and k: "keepsParentEvent ev"
  shows "case react sys ev of
           Inl e \<Rightarrow> e = TypeError
         | Inr sys' \<Rightarrow> allOneRoot (cells sys') \<and> pendingOneRoot sys'"
proof (cases ev)
  case (Intent i)
  show ?thesis
  proof (cases "render (cells sys)")
    case None
    then show ?thesis using Intent by (simp add: react_def step_def)
  next
    case (Some cur)
    have o: "oneRoot \<lparr>nodes = nodes cur, theme = theme cur\<rparr>"
      using current_oneRoot[OF inv render_SomeD(5)[OF Some]] .
    from k Intent have "keepsParent i" by simp
    from handle_allOneRoot[OF inv o this] obtain st' where
      "handle cur (cells sys) i = Inr st'" "allOneRoot st'" by blast
    then show ?thesis using Intent Some pen by (simp add: react_def step_def pendingOneRoot_def)
  qed
next
  case (Request apiKey r jp)
  show ?thesis
  proof (cases "render (cells sys)")
    case None
    then show ?thesis using Request by (simp add: react_def)
  next
    case (Some cur)
    have o: "oneRoot \<lparr>nodes = nodes cur, theme = theme cur\<rparr>"
      using current_oneRoot[OF inv render_SomeD(5)[OF Some]] .
    then show ?thesis using Request Some inv pen
      by (simp add: react_def pendingOneRoot_def handleGenerateTheme_request_def)
  qed
next
  case (Settle n)
  show ?thesis
  proof (cases "n < length (pending sys)")
    case False
    then show ?thesis using Settle inv pen by (simp add: react_def)
  next
    case True
    obtain cur promise where cp: "pending sys ! n = (cur, promise)" by (cases "pending sys ! n")
    have o: "oneRoot \<lparr>nodes = nodes cur, theme = theme cur\<rparr>"
      using pen True cp by (auto simp: pendingOneRoot_def list_all_length)
    have rest: "list_all (\<lambda>(c, p). oneRoot \<lparr>nodes = nodes c, theme = theme c\<rparr>)
        (take n (pending sys) @ drop (Suc n) (pending sys))"
      using pen unfolding pendingOneRoot_def list_all_iff
      by (auto dest: in_set_takeD in_set_dropD)
    show ?thesis
    proof (cases promise)
      case (Inl e)
      then show ?thesis using Settle True cp inv rest
        by (simp add: react_def pendingOneRoot_def)
    next
      case (Inr v)
      from handleGenerateTheme_reply_allOneRoot[OF inv o, of v]
      show ?thesis using Settle True cp Inr inv rest
        by (auto simp: react_def pendingOneRoot_def split: sum.splits)
    qed
  qed
qed

lemma runEvents_keeps_one_root:
  assumes "allOneRoot (cells sys)" and "pendingOneRoot sys" and "list_all keepsParentEvent evs"
  shows "case runEvents sys evs of
           Inl e \<Rightarrow> e = TypeError
         | Inr sys' \<Rightarrow> allOneRoot (cells sys') \<and> pendingOneRoot sys'"
  using assms
proof (induction evs arbitrary: sys)
  case Nil then show ?case by simp
next
  case (Cons ev evs)
  from Cons.prems(3) have k: "keepsParentEvent ev" and ks: "list_all keepsParentEvent evs"
    by simp_all
  show ?case
  proof (cases "react sys ev")
    case (Inl e)
    with react_keeps_one_root[OF Cons.prems(1,2) k] show ?thesis by simp
  next
    case (Inr sys')
    with react_keeps_one_root[OF Cons.prems(1,2) k]
    have "allOneRoot (cells sys')" "pendingOneRoot sys'" by simp_all
    from Cons.IH[OF this ks] show ?thesis by (simp add: Inr)
  qed
qed

end
